theory Spec2Isabelle
  imports Complex_Main "HOL-Library.Word"
begin

section \<open>ScratchIt: a shallow embedding of src/js/ScratchIt.js\<close>

text \<open>
  The widget keeps its state in the variables of one closure. The model puts them in a
  record and passes it through every handler.

  Coordinates, distances and the scale are JavaScript numbers, that is doubles. A finite
  double is a real number, and every arithmetic operation of the program returns the
  exact result rounded to a double. The model keeps the real numbers and applies a
  rounding function \<open>rnd\<close> after each operation that the program performs; \<open>rnd\<close> is
  a parameter of every definition that computes, so what is proved for all \<open>rnd\<close> holds
  for the rounding of doubles. \<open>Math.ceil\<close> and \<open>Math.round\<close> are exact on doubles and
  are not rounded again; comparisons are exact. Counters and loop indices are integers
  (exact in doubles below \<open>2 ^ 53\<close>). Overflow to infinity is left out for
  coordinates. The reveal threshold and the erased fraction can be \<open>NaN\<close> or infinite
  in the program, so they get a number type of their own.
\<close>

text \<open>Arithmetic in which no result needs rounding.\<close>

definition exact :: "real \<Rightarrow> real" where
  "exact v = v"

subsection \<open>JavaScript numbers that may be NaN or infinite\<close>

datatype jsnum = NaN | NegInf | Fin real | PosInf

text \<open>\<open>a / b\<close> for two finite operands, before rounding.\<close>

definition js_div :: "real \<Rightarrow> real \<Rightarrow> jsnum" where
  "js_div a b =
     (if b = 0 then (if a = 0 then NaN else if 0 < a then PosInf else NegInf)
      else Fin (a / b))"

text \<open>\<open>a * b\<close>, before rounding.\<close>

fun js_times :: "jsnum \<Rightarrow> jsnum \<Rightarrow> jsnum" where
  "js_times NaN _ = NaN"
| "js_times _ NaN = NaN"
| "js_times (Fin a) (Fin b) = Fin (a * b)"
| "js_times (Fin a) PosInf = (if a = 0 then NaN else if 0 < a then PosInf else NegInf)"
| "js_times (Fin a) NegInf = (if a = 0 then NaN else if 0 < a then NegInf else PosInf)"
| "js_times PosInf (Fin b) = (if b = 0 then NaN else if 0 < b then PosInf else NegInf)"
| "js_times NegInf (Fin b) = (if b = 0 then NaN else if 0 < b then NegInf else PosInf)"
| "js_times PosInf PosInf = PosInf"
| "js_times NegInf NegInf = PosInf"
| "js_times PosInf NegInf = NegInf"
| "js_times NegInf PosInf = NegInf"

text \<open>A result rounded to a double: only a finite value can change.\<close>

fun js_round :: "(real \<Rightarrow> real) \<Rightarrow> jsnum \<Rightarrow> jsnum" where
  "js_round rnd (Fin a) = Fin (rnd a)"
| "js_round rnd n = n"

text \<open>\<open>a < b\<close>: false as soon as one side is \<open>NaN\<close>.\<close>

fun js_lt :: "jsnum \<Rightarrow> jsnum \<Rightarrow> bool" where
  "js_lt NaN _ = False"
| "js_lt _ NaN = False"
| "js_lt (Fin a) (Fin b) = (a < b)"
| "js_lt NegInf NegInf = False"
| "js_lt NegInf _ = True"
| "js_lt _ NegInf = False"
| "js_lt PosInf _ = False"
| "js_lt _ PosInf = True"

definition js_gt :: "jsnum \<Rightarrow> jsnum \<Rightarrow> bool" where
  "js_gt a b = js_lt b a"

text \<open>\<open>a >= b\<close>: false as soon as one side is \<open>NaN\<close>.\<close>

definition js_ge :: "jsnum \<Rightarrow> jsnum \<Rightarrow> bool" where
  "js_ge a b = (a \<noteq> NaN \<and> b \<noteq> NaN \<and> \<not> js_lt a b)"

subsection \<open>The values a caller can pass to the constructor\<close>

datatype fn = NoOp | UserFn nat

datatype jsval =
    JUndefined
  | JNull
  | JBoolean bool
  | JNumber jsnum
  | JString string
  | JFunction fn
  | JObject "(string \<times> jsval) list"

fun typeof :: "jsval \<Rightarrow> string" where
  "typeof JUndefined = ''undefined''"
| "typeof JNull = ''object''"
| "typeof (JBoolean _) = ''boolean''"
| "typeof (JNumber _) = ''number''"
| "typeof (JString _) = ''string''"
| "typeof (JFunction _) = ''function''"
| "typeof (JObject _) = ''object''"

fun truthy :: "jsval \<Rightarrow> bool" where
  "truthy JUndefined = False"
| "truthy JNull = False"
| "truthy (JBoolean b) = b"
| "truthy (JNumber n) = (n \<noteq> NaN \<and> n \<noteq> Fin 0)"
| "truthy (JString s) = (s \<noteq> [])"
| "truthy (JFunction _) = True"
| "truthy (JObject _) = True"

text \<open>Reading a property: \<open>undefined\<close> when the object has no such property.\<close>

fun getProp :: "jsval \<Rightarrow> string \<Rightarrow> jsval" where
  "getProp (JObject ps) k = (case map_of ps k of None \<Rightarrow> JUndefined | Some v \<Rightarrow> v)"
| "getProp _ _ = JUndefined"

text \<open>
  The numeric coercion of \<open>arguments[4]*1\<close>. The language fixes it for \<open>undefined\<close>,
  \<open>null\<close>, booleans and numbers; for strings, functions and objects it parses or calls
  user code, and that part is the parameter \<open>coerce\<close>. The product with 1 is the number
  itself in doubles, so it is not rounded.
\<close>

fun to_number :: "(jsval \<Rightarrow> jsnum) \<Rightarrow> jsval \<Rightarrow> jsnum" where
  "to_number coerce JUndefined = NaN"
| "to_number coerce JNull = Fin 0"
| "to_number coerce (JBoolean b) = Fin (if b then 1 else 0)"
| "to_number coerce (JNumber n) = n"
| "to_number coerce v = coerce v"

text \<open>\<open>arguments[i]\<close>.\<close>

definition arg :: "jsval list \<Rightarrow> nat \<Rightarrow> jsval" where
  "arg args i = (if i < length args then args ! i else JUndefined)"

subsection \<open>Points and canvases\<close>

record point =
  px :: real
  py :: real

text \<open>\<open>Math.round\<close>: the nearest integer, halves go up.\<close>

definition Math_round :: "real \<Rightarrow> real" where
  "Math_round v = of_int \<lfloor>v + 1 / 2\<rfloor>"

text \<open>
  A canvas: its size and the bytes that \<open>getImageData(0, 0, width, height).data\<close>
  returns for it (RGBA, row by row, four bytes a pixel).
\<close>

record canvas =
  width :: nat
  height :: nat
  data :: "8 word list"

definition wf_canvas :: "canvas \<Rightarrow> bool" where
  "wf_canvas c = (length (data c) = 4 * (width c * height c))"

subsection \<open>The constructor\<close>

datatype error = Thrown string

text \<open>
  What \<open>construct\<close> leaves in the closure while the two images load: the container, the
  callback, the threshold, and what the two loads have delivered so far (\<open>None\<close> for a
  canvas is the \<open>false\<close> that a failed load passes).
\<close>

record loading =
  parentEl :: jsval
  loadCallback :: jsval
  loadThreshold :: jsnum
  overlayLoaded :: bool
  brushLoaded :: bool
  loadedOverlay :: "canvas option"
  loadedBrush :: "canvas option"

text \<open>
  The two continuations that \<open>construct\<close> hands to \<open>getCanvasFromImage\<close>, without
  their call of \<open>onCanvasLoaded\<close>: each notes that its load has reported and keeps what
  it got.
\<close>

definition overlayArrived :: "canvas option \<Rightarrow> loading \<Rightarrow> loading" where
  "overlayArrived canvas l = l\<lparr>overlayLoaded := True, loadedOverlay := canvas\<rparr>"

definition brushArrived :: "canvas option \<Rightarrow> loading \<Rightarrow> loading" where
  "brushArrived canvas l = l\<lparr>brushLoaded := True, loadedBrush := canvas\<rparr>"

text \<open>
  \<open>isDomElement\<close>. Whether \<open>typeof HTMLElement\<close> is \<open>'object'\<close> and what
  \<open>instanceof HTMLElement\<close> answers belong to the browser: they are the parameters
  \<open>htmlElementIsObject\<close> and \<open>instanceofHTMLElement\<close>. Only the truth value of the
  result is used by the caller.
\<close>

definition isDomElement :: "bool \<Rightarrow> (jsval \<Rightarrow> bool) \<Rightarrow> jsval \<Rightarrow> bool" where
  "isDomElement htmlElementIsObject instanceofHTMLElement el =
     (if htmlElementIsObject then instanceofHTMLElement el
      else truthy el \<and> typeof el = ''object'' \<and> el \<noteq> JNull
           \<and> getProp el ''nodeType'' = JNumber (Fin 1)
           \<and> typeof (getProp el ''nodeName'') = ''string'')"

text \<open>
  \<open>construct\<close>, up to the two \<open>getCanvasFromImage\<close> calls, which only register the
  loads. A \<open>throw\<close> is \<open>Inl\<close>.
\<close>

definition construct ::
  "bool \<Rightarrow> (jsval \<Rightarrow> bool) \<Rightarrow> (jsval \<Rightarrow> jsnum) \<Rightarrow> jsval list \<Rightarrow> error + loading" where
  "construct htmlElementIsObject instanceofHTMLElement coerce args =
     (let el = arg args 0;
          callback = (if length args > 3 then arg args 3 else JFunction NoOp);
          threshold = (if length args > 4 then js_times (to_number coerce (arg args 4)) (Fin 1)
                       else Fin 0)
      in if \<not> isDomElement htmlElementIsObject instanceofHTMLElement el
           then Inl (Thrown (''ScratchIt() requires parent element to be a valid DOM Element.'' @ [CHR 0x22]))
         else if typeof callback \<noteq> ''function''
           then Inl (Thrown ''ScratchIt() requires callback to be a function'')
         else if js_lt threshold (Fin 0) \<or> js_gt threshold (Fin 100)
           then Inl (Thrown ''ScratchIt() requires threshold to be between 0-100'')
         else Inr \<lparr>parentEl = el, loadCallback = callback, loadThreshold = threshold,
                   overlayLoaded = False, brushLoaded = False,
                   loadedOverlay = None, loadedBrush = None\<rparr>)"

subsection \<open>The running widget\<close>

text \<open>
  The closure's variables once both canvases are there. \<open>calls\<close> is the one field the
  source does not have: it lists the argument lists of the invocations of
  \<open>revealCallback\<close>, in order.
\<close>

record widget =
  overlayCanvas :: canvas
  brushCanvas :: canvas
  isPointerDown :: bool
  pointerOrigin :: point
  offsetOrigin :: point
  scale :: real
  paintQueue :: "point list"
  lastPoint :: "point option"
  minPointDist :: real
  isRevealed :: bool
  revealThreshold :: jsnum
  revealCallback :: jsval
  calls :: "jsval list list"

text \<open>
  \<open>onCanvasLoaded\<close>: nothing happens until both loads have reported and both delivered a
  canvas (\<open>None\<close>: the widget stays inert). Then the listeners are attached and the
  state below is what they start from; \<open>sc\<close> is the scale that \<open>onResize\<close> computes
  from the layout.
\<close>

definition onCanvasLoaded :: "(real \<Rightarrow> real) \<Rightarrow> real \<Rightarrow> loading \<Rightarrow> widget option" where
  "onCanvasLoaded rnd sc l =
     (if \<not> (overlayLoaded l \<and> brushLoaded l) then None
      else case (loadedOverlay l, loadedBrush l) of
        (Some oc, Some bc) \<Rightarrow>
          Some \<lparr>overlayCanvas = oc, brushCanvas = bc, isPointerDown = False,
                pointerOrigin = \<lparr>px = 0, py = 0\<rparr>, offsetOrigin = \<lparr>px = 0, py = 0\<rparr>,
                scale = sc, paintQueue = [], lastPoint = None,
                minPointDist = rnd (real (width bc) / 2),
                isRevealed = False, revealThreshold = loadThreshold l,
                revealCallback = loadCallback l, calls = []\<rparr>
      | _ \<Rightarrow> None)"

subsection \<open>The path interpolator\<close>

text \<open>The \<open>for\<close> loop of \<open>addPoint\<close>: \<open>i\<close> runs from its start while \<open>i < numSegments\<close>.\<close>

function tweenLoop ::
  "(real \<Rightarrow> real) \<Rightarrow> int \<Rightarrow> int \<Rightarrow> point \<Rightarrow> real \<Rightarrow> real \<Rightarrow> point list \<Rightarrow> point list" where
  "tweenLoop rnd i numSegments point dx dy queue =
     (if i < numSegments
      then tweenLoop rnd (i + 1) numSegments point dx dy
             (queue @ [\<lparr>px = Math_round (rnd (px point + rnd (of_int i * dx))),
                        py = Math_round (rnd (py point + rnd (of_int i * dy)))\<rparr>])
      else queue)"
  by pat_completeness auto
termination
  by (relation "measure (\<lambda>(rnd, i, numSegments, point, dx, dy, queue). nat (numSegments - i))") auto

declare tweenLoop.simps [simp del]

text \<open>The last three statements of \<open>addPoint\<close>.\<close>

definition pushRounded :: "point \<Rightarrow> widget \<Rightarrow> widget" where
  "pushRounded point s =
     (let p = \<lparr>px = Math_round (px point), py = Math_round (py point)\<rparr>
      in s\<lparr>lastPoint := Some p, paintQueue := paintQueue s @ [p]\<rparr>)"

text \<open>
  \<open>addPoint\<close>. With \<open>minPointDist = 0\<close> and two distinct points, \<open>numSegments\<close> is
  \<open>Infinity\<close> and the loop never ends normally: that is \<open>None\<close>.
\<close>

definition addPoint :: "(real \<Rightarrow> real) \<Rightarrow> point \<Rightarrow> bool \<Rightarrow> widget \<Rightarrow> widget option" where
  "addPoint rnd point tween s =
     (case (if tween then lastPoint s else None) of
        None \<Rightarrow> Some (pushRounded point s)
      | Some lp \<Rightarrow>
          (let dx = rnd (px lp - px point);
               dy = rnd (py lp - py point);
               dist = rnd (sqrt (rnd (rnd (dx * dx) + rnd (dy * dy))))
           in if dist > minPointDist s
              then (if minPointDist s = 0 then None
                    else (let numSegments = \<lceil>rnd (dist / minPointDist s)\<rceil>;
                              dx' = rnd (dx / of_int numSegments);
                              dy' = rnd (dy / of_int numSegments)
                          in Some (pushRounded point
                               (s\<lparr>paintQueue :=
                                    tweenLoop rnd 1 numSegments point dx' dy' (paintQueue s)\<rparr>))))
              else Some (pushRounded point s)))"

subsection \<open>Painting\<close>

text \<open>
  \<open>draw\<close>: the queue is emptied from its head, and each point stamps the brush on the
  overlay. \<open>drawImage\<close> is the canvas API (destination, source, x, y) and a parameter.
\<close>

fun drain ::
  "(real \<Rightarrow> real) \<Rightarrow> (canvas \<Rightarrow> canvas \<Rightarrow> real \<Rightarrow> real \<Rightarrow> canvas) \<Rightarrow> canvas \<Rightarrow> point list \<Rightarrow> canvas
     \<Rightarrow> canvas" where
  "drain rnd drawImage brush [] overlay = overlay"
| "drain rnd drawImage brush (point # queue) overlay =
     drain rnd drawImage brush queue
       (drawImage overlay brush (rnd (px point - rnd (real (width brush) / 2)))
                                (rnd (py point - rnd (real (height brush) / 2))))"

definition draw ::
  "(real \<Rightarrow> real) \<Rightarrow> (canvas \<Rightarrow> canvas \<Rightarrow> real \<Rightarrow> real \<Rightarrow> canvas) \<Rightarrow> widget \<Rightarrow> widget" where
  "draw rnd drawImage s =
     s\<lparr>overlayCanvas := drain rnd drawImage (brushCanvas s) (paintQueue s) (overlayCanvas s),
       paintQueue := []\<rparr>"

subsection \<open>The reveal test\<close>

text \<open>
  The scan of \<open>testRevealed\<close>: \<open>i\<close> steps by four through the bytes and looks at byte
  \<open>i + 3\<close>. A read past the end gives \<open>undefined\<close>, and \<open>undefined <= 128\<close> is false.
\<close>

fun countVisible :: "8 word list \<Rightarrow> nat" where
  "countVisible (r # g # b # a # rest) = (if a \<le> 128 then 1 else 0) + countVisible rest"
| "countVisible _ = 0"

text \<open>How a call of the callback ends.\<close>

datatype outcome = Returns | Throws

text \<open>
  \<open>testRevealed\<close>. The call \<open>revealCallback()\<close> runs the caller's code: \<open>call\<close> gives the
  state in which that code leaves the widget and how it ends, or \<open>None\<close> when it does not
  come back. Only after a normal return does the next statement set \<open>isRevealed\<close>; an
  exception leaves the function with the flag as it was. The quotient and the product
  are rounded one after the other, as the program computes them.

  The canvas of a loaded image has positive sides; for an empty one \<open>getImageData\<close>
  refuses before anything is changed, and the model returns the state unchanged as well
  (no pixel, \<open>0 / 0\<close>, no reveal).
\<close>

definition testRevealed ::
  "(real \<Rightarrow> real) \<Rightarrow> (widget \<Rightarrow> (widget \<times> outcome) option) \<Rightarrow> widget \<Rightarrow> widget option" where
  "testRevealed rnd call s =
     (let totalPixels = width (overlayCanvas s) * height (overlayCanvas s)
      in if isRevealed s then Some s
         else (let numVisible = countVisible (data (overlayCanvas s))
               in if js_ge (js_round rnd (js_times
                              (js_round rnd (js_div (real numVisible) (real totalPixels)))
                              (Fin 100)))
                           (revealThreshold s)
                  then (case call s of
                          None \<Rightarrow> None
                        | Some (s', Returns) \<Rightarrow> Some (s'\<lparr>isRevealed := True\<rparr>)
                        | Some (s', Throws) \<Rightarrow> Some s')
                  else Some s))"

subsection \<open>The pointer handlers\<close>

text \<open>
  An event, as the handlers read it: \<open>evPoint\<close> is what \<open>getPointFromEvent\<close> returns for
  it and \<open>evOffset\<close> what \<open>getOffsetPointFromEvent\<close> returns.
\<close>

record event =
  evPoint :: point
  evOffset :: point

definition onPointerDown :: "(real \<Rightarrow> real) \<Rightarrow> event \<Rightarrow> widget \<Rightarrow> widget option" where
  "onPointerDown rnd ev s =
     (let s1 = s\<lparr>isPointerDown := True, pointerOrigin := evPoint ev, offsetOrigin := evOffset ev\<rparr>
      in addPoint rnd \<lparr>px = rnd (px (offsetOrigin s1) * scale s1),
                       py = rnd (py (offsetOrigin s1) * scale s1)\<rparr>
                  False s1)"

definition onPointerMove :: "(real \<Rightarrow> real) \<Rightarrow> event \<Rightarrow> widget \<Rightarrow> widget option" where
  "onPointerMove rnd ev s =
     (if \<not> isPointerDown s then Some s
      else (let pointerPosition = evPoint ev
            in addPoint rnd
                 \<lparr>px = rnd (rnd (px (offsetOrigin s)
                                   + rnd (px pointerPosition - px (pointerOrigin s))) * scale s),
                  py = rnd (rnd (py (offsetOrigin s)
                                   + rnd (py pointerPosition - py (pointerOrigin s))) * scale s)\<rparr>
                 True s))"

definition onPointerUp ::
  "(real \<Rightarrow> real) \<Rightarrow> (widget \<Rightarrow> (widget \<times> outcome) option) \<Rightarrow> widget \<Rightarrow> widget option" where
  "onPointerUp rnd call s =
     (if \<not> isPointerDown s then Some s
      else testRevealed rnd call
             (s\<lparr>isPointerDown := False, lastPoint := None,
                pointerOrigin := \<lparr>px = 0, py = 0\<rparr>, offsetOrigin := \<lparr>px = 0, py = 0\<rparr>\<rparr>))"

subsection \<open>The caller's callback\<close>

text \<open>
  The callback is code of the page. What it can do to the widget before it ends is
  dispatch pointer events, which run the handlers at once, inside the call; then it
  returns or throws. An exception of a handler that runs inside a dispatch does not
  reach the dispatching code. \<open>cb k\<close> describes the invocation that \<open>k\<close> earlier
  invocations precede: the events it dispatches and how it ends.
\<close>

datatype dispatched = DispatchDown event | DispatchMove event | DispatchUp

type_synonym behaviour = "nat \<Rightarrow> dispatched list \<times> outcome"

fun dispatch ::
  "(real \<Rightarrow> real) \<Rightarrow> (widget \<Rightarrow> (widget \<times> outcome) option) \<Rightarrow> dispatched \<Rightarrow> widget \<Rightarrow> widget option" where
  "dispatch rnd call (DispatchDown ev) s = onPointerDown rnd ev s"
| "dispatch rnd call (DispatchMove ev) s = onPointerMove rnd ev s"
| "dispatch rnd call DispatchUp s = onPointerUp rnd call s"

fun dispatchAll ::
  "(real \<Rightarrow> real) \<Rightarrow> (widget \<Rightarrow> (widget \<times> outcome) option) \<Rightarrow> dispatched list \<Rightarrow> widget
     \<Rightarrow> widget option" where
  "dispatchAll rnd call [] s = Some s"
| "dispatchAll rnd call (d # ds) s =
     (case dispatch rnd call d s of None \<Rightarrow> None | Some s' \<Rightarrow> dispatchAll rnd call ds s')"

text \<open>
  One invocation of the callback, with no arguments. A pointer-up dispatched from inside
  runs \<open>testRevealed\<close> again while \<open>isRevealed\<close> is still false, so invocations can nest;
  \<open>depth\<close> bounds the nesting, and \<open>None\<close> is a nesting that goes deeper.
\<close>

primrec revealCallbackCall ::
  "(real \<Rightarrow> real) \<Rightarrow> behaviour \<Rightarrow> nat \<Rightarrow> widget \<Rightarrow> (widget \<times> outcome) option" where
  "revealCallbackCall rnd cb 0 s = None"
| "revealCallbackCall rnd cb (Suc depth) s =
     (case dispatchAll rnd (revealCallbackCall rnd cb depth) (fst (cb (length (calls s))))
             (s\<lparr>calls := calls s @ [[]]\<rparr>) of
        None \<Rightarrow> None
      | Some s' \<Rightarrow> Some (s', snd (cb (length (calls s)))))"

subsection \<open>The life of a widget\<close>

datatype input = PointerDown event | PointerMove event | PointerUp | Frame

fun step ::
  "(real \<Rightarrow> real) \<Rightarrow> (canvas \<Rightarrow> canvas \<Rightarrow> real \<Rightarrow> real \<Rightarrow> canvas)
     \<Rightarrow> (widget \<Rightarrow> (widget \<times> outcome) option) \<Rightarrow> input \<Rightarrow> widget \<Rightarrow> widget option" where
  "step rnd drawImage call (PointerDown ev) s = onPointerDown rnd ev s"
| "step rnd drawImage call (PointerMove ev) s = onPointerMove rnd ev s"
| "step rnd drawImage call PointerUp s = onPointerUp rnd call s"
| "step rnd drawImage call Frame s = Some (draw rnd drawImage s)"

fun run ::
  "(real \<Rightarrow> real) \<Rightarrow> (canvas \<Rightarrow> canvas \<Rightarrow> real \<Rightarrow> real \<Rightarrow> canvas)
     \<Rightarrow> (widget \<Rightarrow> (widget \<times> outcome) option) \<Rightarrow> input list \<Rightarrow> widget \<Rightarrow> widget option" where
  "run rnd drawImage call [] s = Some s"
| "run rnd drawImage call (e # es) s =
     (case step rnd drawImage call e s of None \<Rightarrow> None | Some s' \<Rightarrow> run rnd drawImage call es s')"

subsection \<open>The reveal test, in the words of the specification\<close>

text \<open>
  Pixel \<open>i\<close> has its alpha in byte \<open>4 * i + 3\<close>; it is visible exactly when that byte is
  at most 128. The erased fraction is the number of visible pixels over the number of
  pixels, times 100, in the arithmetic of the program.
\<close>

definition visibleCount :: "canvas \<Rightarrow> nat" where
  "visibleCount c = length (filter (\<lambda>i. data c ! (4 * i + 3) \<le> 128) [0..<width c * height c])"

definition erasedFraction :: "(real \<Rightarrow> real) \<Rightarrow> canvas \<Rightarrow> jsnum" where
  "erasedFraction rnd c =
     js_round rnd (js_times
       (js_round rnd (js_div (real (visibleCount c)) (real (width c * height c)))) (Fin 100))"

text \<open>The state in which \<open>onPointerUp\<close> starts the reveal test.\<close>

definition released :: "widget \<Rightarrow> widget" where
  "released s = s\<lparr>isPointerDown := False, lastPoint := None,
                  pointerOrigin := \<lparr>px = 0, py = 0\<rparr>, offsetOrigin := \<lparr>px = 0, py = 0\<rparr>\<rparr>"

text \<open>A call leaves the brush and \<open>minPointDist\<close> as they are.\<close>

definition keepsBrush :: "(widget \<Rightarrow> (widget \<times> outcome) option) \<Rightarrow> bool" where
  "keepsBrush call =
     (\<forall>s s' out. call s = Some (s', out) \<longrightarrow>
        brushCanvas s' = brushCanvas s \<and> minPointDist s' = minPointDist s)"

subsection \<open>Distances and spacing\<close>

text \<open>
  The distance of two points as \<open>addPoint\<close> computes it, the Euclidean distance itself,
  and the property that neighbours in a list of points are at most \<open>m\<close> apart.
\<close>

definition jsDist :: "(real \<Rightarrow> real) \<Rightarrow> point \<Rightarrow> point \<Rightarrow> real" where
  "jsDist rnd a b =
     (let dx = rnd (px a - px b); dy = rnd (py a - py b)
      in rnd (sqrt (rnd (rnd (dx * dx) + rnd (dy * dy)))))"

definition pdist :: "point \<Rightarrow> point \<Rightarrow> real" where
  "pdist a b = sqrt ((px a - px b) * (px a - px b) + (py a - py b) * (py a - py b))"


text \<open>The point that iteration \<open>k\<close> of the loop of \<open>addPoint\<close> pushes.\<close>

definition step_at :: "(real \<Rightarrow> real) \<Rightarrow> point \<Rightarrow> real \<Rightarrow> real \<Rightarrow> int \<Rightarrow> point" where
  "step_at rnd point dx dy k =
     \<lparr>px = Math_round (rnd (px point + rnd (of_int k * dx))),
      py = Math_round (rnd (py point + rnd (of_int k * dy)))\<rparr>"


subsection \<open>Concrete widgets\<close>

text \<open>
  A container element, a one-pixel opaque overlay, the same pixel erased, a two-pixel
  overlay with one pixel at alpha 128, and a ten by ten brush.
\<close>

definition containerEl :: jsval where
  "containerEl = JObject [(''nodeType'', JNumber (Fin 1)), (''nodeName'', JString ''DIV'')]"

definition opaquePixel :: canvas where
  "opaquePixel = \<lparr>width = 1, height = 1, data = [0, 0, 0, 255]\<rparr>"

definition clearPixel :: canvas where
  "clearPixel = \<lparr>width = 1, height = 1, data = [0, 0, 0, 0]\<rparr>"

definition halfErased :: canvas where
  "halfErased = \<lparr>width = 2, height = 1, data = [0, 0, 0, 255, 0, 0, 0, 128]\<rparr>"

definition brush10 :: canvas where
  "brush10 = \<lparr>width = 10, height = 10, data = replicate 400 255\<rparr>"

text \<open>
  \<open>drawImage\<close> under \<open>destination-out\<close> for a fully opaque source at whole-pixel
  coordinates: every pixel of the destination that the source covers becomes transparent.
\<close>

definition stampOpaque :: "canvas \<Rightarrow> canvas \<Rightarrow> real \<Rightarrow> real \<Rightarrow> canvas" where
  "stampOpaque dst src x y =
     dst\<lparr>data := map (\<lambda>i. let col = (i div 4) mod width dst; row = (i div 4) div width dst
                         in if x \<le> real col \<and> real col < x + real (width src)
                               \<and> y \<le> real row \<and> real row < y + real (height src)
                            then 0 else data dst ! i)
                   [0..<length (data dst)]\<rparr>"

text \<open>The widget over \<open>opaquePixel\<close> and \<open>brush10\<close> with threshold \<open>t\<close>, before any input.\<close>

definition demo :: "jsnum \<Rightarrow> widget" where
  "demo t = \<lparr>overlayCanvas = opaquePixel, brushCanvas = brush10, isPointerDown = False,
     pointerOrigin = \<lparr>px = 0, py = 0\<rparr>, offsetOrigin = \<lparr>px = 0, py = 0\<rparr>,
     scale = 1, paintQueue = [], lastPoint = None, minPointDist = 5,
     isRevealed = False, revealThreshold = t,
     revealCallback = JFunction (UserFn 0), calls = []\<rparr>"

text \<open>A press on the overlay's top left pixel, with the pointer at (100, 100) in the page.\<close>

definition tap :: event where
  "tap = \<lparr>evPoint = \<lparr>px = 100, py = 100\<rparr>, evOffset = \<lparr>px = 0, py = 0\<rparr>\<rparr>"

definition ticketArgs :: "jsval \<Rightarrow> jsval list" where
  "ticketArgs threshold =
     [containerEl, JString ''overlay.jpg'', JString ''brush.png'', JFunction (UserFn 0), threshold]"

text \<open>
  The widget after the press \<open>tap\<close>, and a move of the pointer fifty pixels to the right.
\<close>

definition pressed :: "jsnum \<Rightarrow> widget" where
  "pressed t = (demo t)\<lparr>isPointerDown := True, pointerOrigin := \<lparr>px = 100, py = 100\<rparr>,
       paintQueue := [\<lparr>px = 0, py = 0\<rparr>], lastPoint := Some \<lparr>px = 0, py = 0\<rparr>\<rparr>"


text \<open>
  Three callbacks: one that returns, one that throws, and one that returns after it has
  dispatched a press and a release of its own during its first invocation.
\<close>

definition quiet :: behaviour where
  "quiet k = ([], Returns)"

definition thrower :: behaviour where
  "thrower k = ([], Throws)"

definition reenter :: behaviour where
  "reenter k = (if k = 0 then [DispatchDown tap, DispatchUp] else [], Returns)"

section \<open>Properties\<close>

subsection \<open>Evaluation of the concrete widgets\<close>

lemma brush10_size: "width brush10 = 10" "height brush10 = 10"
  by (simp_all add: brush10_def)

lemma upt4: "[0..<4] = [0, 1, 2, Suc 2]"
  by (simp add: upt_rec)

lemma upt2: "[0..<2] = [0, 1]"
  by (simp add: upt_rec)

lemma stamp_tap:
  "stampOpaque \<lparr>width = Suc 0, height = Suc 0, data = [r, g, b, a]\<rparr> brush10 (- 5) (- 5) =
     \<lparr>width = Suc 0, height = Suc 0, data = [0, 0, 0, 0]\<rparr>"
  by (simp add: stampOpaque_def brush10_size upt4)

lemmas eval_defs = onPointerDown_def onPointerMove_def onPointerUp_def addPoint_def
  pushRounded_def Math_round_def testRevealed_def js_ge_def js_div_def draw_def
  demo_def tap_def opaquePixel_def clearPixel_def Let_def exact_def
  quiet_def thrower_def reenter_def

lemma containerEl_ok: "isDomElement False (\<lambda>v. False) containerEl"
  by (simp add: isDomElement_def containerEl_def)

lemma demo_constructed:
  "construct False (\<lambda>v. False) (\<lambda>v. NaN) (ticketArgs (JNumber (Fin 50))) =
     Inr \<lparr>parentEl = containerEl, loadCallback = JFunction (UserFn 0), loadThreshold = Fin 50,
          overlayLoaded = False, brushLoaded = False, loadedOverlay = None, loadedBrush = None\<rparr>"
  by (simp add: construct_def containerEl_ok ticketArgs_def arg_def js_gt_def)

lemma demo_loaded:
  "onCanvasLoaded exact 1 (brushArrived (Some brush10) (overlayArrived (Some opaquePixel)
      \<lparr>parentEl = containerEl, loadCallback = JFunction (UserFn 0), loadThreshold = t,
       overlayLoaded = False, brushLoaded = False, loadedOverlay = None, loadedBrush = None\<rparr>))
   = Some (demo t)"
  by (simp add: onCanvasLoaded_def overlayArrived_def brushArrived_def demo_def brush10_size
        exact_def)

subsection \<open>Arithmetic of the number type\<close>

lemma js_times_one: "js_times n (Fin 1) = n"
  by (cases n) auto

subsection \<open>The scan counts the visible pixels\<close>

lemma countVisible_filter:
  "length xs = 4 * n \<Longrightarrow>
   countVisible xs = length (filter (\<lambda>i. xs ! (4 * i + 3) \<le> 128) [0..<n])"
proof (induction n arbitrary: xs)
  case 0
  then show ?case by simp
next
  case (Suc n)
  from Suc.prems have "length xs = Suc (Suc (Suc (Suc (4 * n))))" by simp
  then obtain r g b a rest where xs: "xs = r # g # b # a # rest" and len: "length rest = 4 * n"
    by (auto simp: length_Suc_conv)
  have upt: "[0..<Suc n] = 0 # map Suc [0..<n]"
    by (simp add: upt_conv_Cons map_Suc_upt del: upt_Suc)
  have "length (filter (\<lambda>i. xs ! (4 * i + 3) \<le> 128) [0..<Suc n]) =
        (if a \<le> 128 then 1 else 0) + length (filter (\<lambda>i. rest ! (4 * i + 3) \<le> 128) [0..<n])"
    unfolding upt by (simp add: xs filter_map comp_def numeral_eq_Suc)
  with Suc.IH [OF len] show ?case by (simp add: xs)
qed

lemma countVisible_visibleCount:
  "wf_canvas c \<Longrightarrow> countVisible (data c) = visibleCount c"
  unfolding wf_canvas_def visibleCount_def by (rule countVisible_filter)

lemma testRevealed_unfold:
  assumes "wf_canvas (overlayCanvas s)" and "\<not> isRevealed s"
  shows "testRevealed rnd call s =
           (if js_ge (erasedFraction rnd (overlayCanvas s)) (revealThreshold s)
            then (case call s of
                    None \<Rightarrow> None
                  | Some (s', Returns) \<Rightarrow> Some (s'\<lparr>isRevealed := True\<rparr>)
                  | Some (s', Throws) \<Rightarrow> Some s')
            else Some s)"
  using assms by (simp add: testRevealed_def erasedFraction_def Let_def countVisible_visibleCount)



lemma visibleCount_le: "visibleCount c \<le> width c * height c"
  unfolding visibleCount_def by (metis diff_zero length_filter_le length_upt)

lemma fraction_100:
  "js_ge (erasedFraction exact c) (Fin 100)
     \<longleftrightarrow> 0 < width c * height c \<and> visibleCount c = width c * height c"
proof (cases "width c * height c = 0")
  case True
  with visibleCount_le [of c] show ?thesis
    by (simp add: erasedFraction_def js_div_def js_ge_def)
next
  case False
  then have pos: "0 < real (width c * height c)" by simp
  have "100 \<le> real (visibleCount c) / real (width c * height c) * 100
        \<longleftrightarrow> real (width c * height c) \<le> real (visibleCount c)"
    using pos by (simp add: field_simps)
  with False visibleCount_le [of c] show ?thesis
    by (auto simp add: erasedFraction_def js_div_def js_ge_def exact_def not_less
        simp del: of_nat_mult)
qed

subsection \<open>What the handlers leave alone\<close>

lemma addPoint_frame:
  "addPoint rnd p t s = Some s' \<Longrightarrow>
   calls s' = calls s \<and> isRevealed s' = isRevealed s \<and> revealThreshold s' = revealThreshold s
   \<and> overlayCanvas s' = overlayCanvas s \<and> isPointerDown s' = isPointerDown s
   \<and> brushCanvas s' = brushCanvas s \<and> minPointDist s' = minPointDist s"
  by (auto simp: addPoint_def pushRounded_def Let_def split: option.splits if_splits)

lemma onPointerDown_frame:
  "onPointerDown rnd ev s = Some s' \<Longrightarrow>
   calls s' = calls s \<and> isRevealed s' = isRevealed s \<and> revealThreshold s' = revealThreshold s
   \<and> brushCanvas s' = brushCanvas s \<and> minPointDist s' = minPointDist s"
  by (auto simp: onPointerDown_def Let_def dest: addPoint_frame)

lemma onPointerMove_frame:
  "onPointerMove rnd ev s = Some s' \<Longrightarrow>
   calls s' = calls s \<and> isRevealed s' = isRevealed s \<and> revealThreshold s' = revealThreshold s
   \<and> brushCanvas s' = brushCanvas s \<and> minPointDist s' = minPointDist s"
  by (auto simp: onPointerMove_def Let_def split: if_splits dest: addPoint_frame)

lemma onCanvasLoaded_fresh:
  "onCanvasLoaded rnd sc l = Some s \<Longrightarrow>
   revealThreshold s = loadThreshold l \<and> calls s = [] \<and> \<not> isRevealed s
   \<and> loadedBrush l = Some (brushCanvas s)
   \<and> minPointDist s = rnd (real (width (brushCanvas s)) / 2)"
  by (auto simp: onCanvasLoaded_def split: if_splits option.splits)

subsection \<open>The brush and the spacing stay through every input\<close>

lemma testRevealed_keeps:
  assumes "keepsBrush call" and "testRevealed rnd call s = Some s'"
  shows "brushCanvas s' = brushCanvas s \<and> minPointDist s' = minPointDist s"
proof (cases "call s")
  case None
  with assms(2) show ?thesis
    by (auto simp: testRevealed_def Let_def split: if_splits)
next
  case (Some r)
  obtain s1 out where r: "r = (s1, out)" by (cases r)
  with Some assms(1) have k: "brushCanvas s1 = brushCanvas s \<and> minPointDist s1 = minPointDist s"
    by (simp add: keepsBrush_def)
  from assms(2) Some r k show ?thesis
    by (cases out) (auto simp: testRevealed_def Let_def split: if_splits)
qed

lemma onPointerUp_keeps:
  assumes "keepsBrush call" and "onPointerUp rnd call s = Some s'"
  shows "brushCanvas s' = brushCanvas s \<and> minPointDist s' = minPointDist s"
proof (cases "isPointerDown s")
  case True
  with assms(2) have "testRevealed rnd call (released s) = Some s'"
    by (simp add: onPointerUp_def released_def)
  from testRevealed_keeps [OF assms(1) this] show ?thesis by (simp add: released_def)
next
  case False
  with assms(2) show ?thesis by (simp add: onPointerUp_def)
qed

lemma dispatchAll_keeps:
  "keepsBrush call \<Longrightarrow> dispatchAll rnd call ds s = Some s' \<Longrightarrow>
   brushCanvas s' = brushCanvas s \<and> minPointDist s' = minPointDist s"
proof (induction ds arbitrary: s)
  case Nil
  then show ?case by simp
next
  case (Cons d ds)
  from Cons.prems(2) obtain s1 where s1: "dispatch rnd call d s = Some s1"
    and r: "dispatchAll rnd call ds s1 = Some s'"
    by (auto split: option.splits)
  from s1 Cons.prems(1) have "brushCanvas s1 = brushCanvas s \<and> minPointDist s1 = minPointDist s"
    by (cases d) (auto dest: onPointerDown_frame onPointerMove_frame onPointerUp_keeps)
  with Cons.IH [OF Cons.prems(1) r] show ?case by simp
qed

lemma revealCallbackCall_keeps: "keepsBrush (revealCallbackCall rnd cb depth)"
proof (induction depth)
  case 0
  show ?case by (simp add: keepsBrush_def)
next
  case (Suc depth)
  show ?case
    unfolding keepsBrush_def
  proof (intro allI impI)
    fix s s' out
    assume "revealCallbackCall rnd cb (Suc depth) s = Some (s', out)"
    then have "dispatchAll rnd (revealCallbackCall rnd cb depth) (fst (cb (length (calls s))))
                 (s\<lparr>calls := calls s @ [[]]\<rparr>) = Some s'"
      by (auto split: option.splits)
    from dispatchAll_keeps [OF Suc this]
    show "brushCanvas s' = brushCanvas s \<and> minPointDist s' = minPointDist s" by simp
  qed
qed

lemma run_brush:
  "keepsBrush call \<Longrightarrow> run rnd dI call es s = Some s' \<Longrightarrow>
   brushCanvas s' = brushCanvas s \<and> minPointDist s' = minPointDist s"
proof (induction es arbitrary: s)
  case Nil
  then show ?case by simp
next
  case (Cons e es)
  from Cons.prems(2) obtain s1 where s1: "step rnd dI call e s = Some s1"
    and r: "run rnd dI call es s1 = Some s'"
    by (auto split: option.splits)
  from s1 Cons.prems(1) have "brushCanvas s1 = brushCanvas s \<and> minPointDist s1 = minPointDist s"
    by (cases e)
       (auto simp: draw_def dest: onPointerDown_frame onPointerMove_frame onPointerUp_keeps)
  with Cons.IH [OF Cons.prems(1) r] show ?case by simp
qed

subsection \<open>A threshold that is not a number\<close>

lemma testRevealed_nan: "revealThreshold s = NaN \<Longrightarrow> testRevealed rnd call s = Some s"
  by (simp add: testRevealed_def js_ge_def)

lemma step_nan:
  "revealThreshold s = NaN \<Longrightarrow> step rnd dI call e s = Some s' \<Longrightarrow>
   revealThreshold s' = NaN \<and> calls s' = calls s \<and> isRevealed s' = isRevealed s"
  by (cases e)
     (auto simp: onPointerUp_def draw_def testRevealed_nan
        split: if_splits dest: onPointerDown_frame onPointerMove_frame)

lemma run_nan:
  "revealThreshold s = NaN \<Longrightarrow> run rnd dI call es s = Some s' \<Longrightarrow>
   revealThreshold s' = NaN \<and> calls s' = calls s \<and> isRevealed s' = isRevealed s"
proof (induction es arbitrary: s)
  case Nil
  then show ?case by simp
next
  case (Cons e es)
  from Cons.prems obtain s1 where s1: "step rnd dI call e s = Some s1"
    and r: "run rnd dI call es s1 = Some s'"
    by (auto split: option.splits)
  from step_nan [OF Cons.prems(1) s1] Cons.IH [OF _ r] show ?case by simp
qed

subsection \<open>The loop of the interpolator\<close>

lemma tweenLoop_upto:
  "tweenLoop rnd i n p dx dy q = q @ map (step_at rnd p dx dy) [i..n - 1]"
proof (induction rnd i n p dx dy q rule: tweenLoop.induct)
  case (1 rnd i n p dx dy q)
  show ?case
  proof (cases "i < n")
    case True
    then have "[i..n - 1] = i # [i + 1..n - 1]" by (simp add: upto_rec1)
    with True 1 show ?thesis by (subst tweenLoop.simps) (simp add: step_at_def)
  next
    case False
    then show ?thesis by (subst tweenLoop.simps) simp
  qed
qed

lemma tween_case:
  assumes "lastPoint s = Some lp" and "minPointDist s < jsDist rnd lp p"
    and "0 < minPointDist s"
  shows "addPoint rnd p True s =
     Some (pushRounded p (s\<lparr>paintQueue := paintQueue s @
        map (step_at rnd p
               (rnd (rnd (px lp - px p) / of_int \<lceil>rnd (jsDist rnd lp p / minPointDist s)\<rceil>))
               (rnd (rnd (py lp - py p) / of_int \<lceil>rnd (jsDist rnd lp p / minPointDist s)\<rceil>)))
            [1..\<lceil>rnd (jsDist rnd lp p / minPointDist s)\<rceil> - 1]\<rparr>))"
  using assms by (simp add: addPoint_def jsDist_def Let_def tweenLoop_upto)


subsection \<open>Without rounding error\<close>

lemma jsDist_exact: "jsDist exact a b = pdist a b"
  by (simp add: jsDist_def pdist_def exact_def Let_def)




subsection \<open>Rounding moves a point by less than a pixel diagonal\<close>










subsection \<open>Chains of points\<close>





subsection \<open>Two sessions\<close>

lemma pressed_reached: "onPointerDown exact tap (demo t) = Some (pressed t)"
  by (simp add: eval_defs pressed_def)

lemma released_pressed: "released (pressed t) = (demo t)\<lparr>paintQueue := [\<lparr>px = 0, py = 0\<rparr>]\<rparr>"
  by (simp add: released_def pressed_def demo_def)

lemma sqrt_2500: "sqrt 2500 = 50"
  by (rule real_sqrt_unique) simp_all


lemma upto_1_9: "[1..9] = [1, 2, 3, 4, 5, 6, 7, 8, 9]"
  by code_simp



lemma press_release_reenter:
  "run exact stampOpaque (revealCallbackCall exact reenter 2) [PointerDown tap, PointerUp]
      (demo (Fin 0)) =
     Some ((demo (Fin 0))\<lparr>paintQueue := [\<lparr>px = 0, py = 0\<rparr>, \<lparr>px = 0, py = 0\<rparr>],
            calls := [[], []], isRevealed := True\<rparr>)"
  by (simp add: eval_defs numeral_2_eq_2)

section \<open>The claims\<close>







text \<open>
  C3. At an overlay with one of its two pixels at alpha 128, so that
  \<open>erasedFraction = 1 / 2 * 100 = 50\<close>, and threshold 50, the reveal check invokes the
  callback with no arguments; when that callback throws, the check ends there and
  \<open>isRevealed\<close> is still false, where the claim has it set to true.
\<close>

theorem reveal_flag_after_throw:
  "js_ge (erasedFraction exact halfErased) (Fin 50)
   \<and> testRevealed exact (revealCallbackCall exact thrower 1)
       ((demo (Fin 50))\<lparr>overlayCanvas := halfErased\<rparr>) =
       Some ((demo (Fin 50))\<lparr>overlayCanvas := halfErased, calls := [[]]\<rparr>)
   \<and> \<not> isRevealed ((demo (Fin 50))\<lparr>overlayCanvas := halfErased, calls := [[]]\<rparr>)"
proof -
  have f: "erasedFraction exact halfErased = Fin 50"
    by (simp add: erasedFraction_def visibleCount_def halfErased_def js_div_def upt2 exact_def)
  have w: "wf_canvas (overlayCanvas ((demo (Fin 50))\<lparr>overlayCanvas := halfErased\<rparr>))"
    by (simp add: wf_canvas_def halfErased_def)
  have n: "\<not> isRevealed ((demo (Fin 50))\<lparr>overlayCanvas := halfErased\<rparr>)"
    by (simp add: demo_def)
  from testRevealed_unfold [OF w n, of exact "revealCallbackCall exact thrower 1"] f
  have "testRevealed exact (revealCallbackCall exact thrower 1)
       ((demo (Fin 50))\<lparr>overlayCanvas := halfErased\<rparr>) =
       Some ((demo (Fin 50))\<lparr>overlayCanvas := halfErased, calls := [[]]\<rparr>)"
    by (simp add: js_ge_def demo_def thrower_def)
  with f show ?thesis by (simp add: js_ge_def demo_def)
qed

text \<open>
  C4. With threshold 0 and a callback that throws, two presses and releases invoke the
  callback twice and \<open>isRevealed\<close> is still false; and a callback that returns, but
  dispatches a press and a release of its own while it runs, is invoked twice within one
  pointer-up. The claim allows one invocation.
\<close>

theorem callback_twice:
  "run exact stampOpaque (revealCallbackCall exact thrower 1)
      [PointerDown tap, PointerUp, PointerDown tap, PointerUp] (demo (Fin 0)) =
     Some ((demo (Fin 0))\<lparr>paintQueue := [\<lparr>px = 0, py = 0\<rparr>, \<lparr>px = 0, py = 0\<rparr>],
            calls := [[], []]\<rparr>)
   \<and> \<not> isRevealed ((demo (Fin 0))\<lparr>paintQueue := [\<lparr>px = 0, py = 0\<rparr>, \<lparr>px = 0, py = 0\<rparr>],
            calls := [[], []]\<rparr>)
   \<and> run exact stampOpaque (revealCallbackCall exact reenter 2) [PointerDown tap, PointerUp]
        (demo (Fin 0)) =
       Some ((demo (Fin 0))\<lparr>paintQueue := [\<lparr>px = 0, py = 0\<rparr>, \<lparr>px = 0, py = 0\<rparr>],
              calls := [[], []], isRevealed := True\<rparr>)"
proof -
  have "run exact stampOpaque (revealCallbackCall exact thrower 1)
      [PointerDown tap, PointerUp, PointerDown tap, PointerUp] (demo (Fin 0)) =
     Some ((demo (Fin 0))\<lparr>paintQueue := [\<lparr>px = 0, py = 0\<rparr>, \<lparr>px = 0, py = 0\<rparr>],
            calls := [[], []]\<rparr>)"
    by (simp add: eval_defs)
  moreover have "\<not> isRevealed ((demo (Fin 0))\<lparr>paintQueue := [\<lparr>px = 0, py = 0\<rparr>, \<lparr>px = 0, py = 0\<rparr>],
            calls := [[], []]\<rparr>)"
    by (simp add: demo_def)
  ultimately show ?thesis using press_release_reenter by (intro conjI)
qed



text \<open>
  C6. A widget started with a brush ten pixels wide has \<open>minPointDist = 5\<close> at all times,
  and \<open>addPoint(point, true)\<close> with \<open>point\<close> at computed distance 50 from \<open>lastPoint\<close> puts
  exactly nine points in the queue before \<open>point\<close> itself: the points at
  \<open>k / 10\<close> of the way from \<open>point\<close> to \<open>lastPoint\<close>, \<open>k = 1, ..., 9\<close>, each rounded. The
  quotients \<open>10 / 2\<close> and \<open>50 / 5\<close> are doubles, so rounding leaves them as they are.
\<close>

theorem fifty_px_nine_points:
  assumes "onCanvasLoaded rnd sc l = Some s0" and "width (brushCanvas s0) = 10"
    and "rnd 5 = 5" and "rnd 10 = 10"
    and "run rnd dI (revealCallbackCall rnd cb depth) es s0 = Some s"
    and "lastPoint s = Some lp" and "jsDist rnd lp p = 50"
  shows "minPointDist s = 5
         \<and> addPoint rnd p True s =
             Some (s\<lparr>paintQueue := paintQueue s @
                map (\<lambda>k. \<lparr>px = Math_round (rnd (px p + rnd (of_int k * rnd (rnd (px lp - px p) / 10)))),
                          py = Math_round (rnd (py p + rnd (of_int k * rnd (rnd (py lp - py p) / 10))))\<rparr>)
                    [1, 2, 3, 4, 5, 6, 7, 8, 9]
                @ [\<lparr>px = Math_round (px p), py = Math_round (py p)\<rparr>],
                lastPoint := Some \<lparr>px = Math_round (px p), py = Math_round (py p)\<rparr>\<rparr>)"
proof -
  from onCanvasLoaded_fresh [OF assms(1)] assms(2,3) have "minPointDist s0 = 5" by simp
  with run_brush [OF revealCallbackCall_keeps assms(5)] have m: "minPointDist s = 5" by simp
  have c: "\<lceil>rnd (jsDist rnd lp p / 5)\<rceil> = 10" by (simp add: assms(4,7))
  have lt: "minPointDist s < jsDist rnd lp p" and pos: "0 < minPointDist s"
    by (simp_all add: m assms(7))
  from tween_case [OF assms(6) lt pos] show ?thesis
    by (simp add: c m upto_1_9 pushRounded_def Let_def step_at_def [abs_def])
qed

theorem fifty_px_nine_points_witness:
  "onCanvasLoaded exact 1 (brushArrived (Some brush10) (overlayArrived (Some opaquePixel)
      \<lparr>parentEl = containerEl, loadCallback = JFunction (UserFn 0), loadThreshold = Fin 50,
       overlayLoaded = False, brushLoaded = False, loadedOverlay = None, loadedBrush = None\<rparr>))
     = Some (demo (Fin 50))
   \<and> width (brushCanvas (demo (Fin 50))) = 10 \<and> exact 5 = 5 \<and> exact 10 = 10
   \<and> run exact stampOpaque (revealCallbackCall exact quiet 1) [PointerDown tap] (demo (Fin 50))
       = Some (pressed (Fin 50))
   \<and> lastPoint (pressed (Fin 50)) = Some \<lparr>px = 0, py = 0\<rparr>
   \<and> jsDist exact \<lparr>px = 0, py = 0\<rparr> \<lparr>px = 30, py = 40\<rparr> = 50
   \<and> minPointDist (pressed (Fin 50)) = 5
   \<and> addPoint exact \<lparr>px = 30, py = 40\<rparr> True (pressed (Fin 50)) =
       Some ((pressed (Fin 50))\<lparr>paintQueue :=
          [\<lparr>px = 0, py = 0\<rparr>, \<lparr>px = 27, py = 36\<rparr>, \<lparr>px = 24, py = 32\<rparr>, \<lparr>px = 21, py = 28\<rparr>,
           \<lparr>px = 18, py = 24\<rparr>, \<lparr>px = 15, py = 20\<rparr>, \<lparr>px = 12, py = 16\<rparr>, \<lparr>px = 9, py = 12\<rparr>,
           \<lparr>px = 6, py = 8\<rparr>, \<lparr>px = 3, py = 4\<rparr>, \<lparr>px = 30, py = 40\<rparr>],
          lastPoint := Some \<lparr>px = 30, py = 40\<rparr>\<rparr>)"
proof -
  have 2: "width (brushCanvas (demo (Fin 50))) = 10"
    by (simp add: demo_def brush10_size)
  have 3: "exact 5 = 5" and 4: "exact 10 = 10"
    by (simp_all add: exact_def)
  have 5: "run exact stampOpaque (revealCallbackCall exact quiet 1) [PointerDown tap] (demo (Fin 50))
       = Some (pressed (Fin 50))"
    by (simp add: pressed_reached)
  have 6: "lastPoint (pressed (Fin 50)) = Some \<lparr>px = 0, py = 0\<rparr>"
    and q: "paintQueue (pressed (Fin 50)) = [\<lparr>px = 0, py = 0\<rparr>]"
    by (simp_all add: pressed_def)
  have 7: "jsDist exact \<lparr>px = 0, py = 0\<rparr> \<lparr>px = 30, py = 40\<rparr> = 50"
    by (simp add: jsDist_exact pdist_def sqrt_2500)
  from fifty_px_nine_points [OF demo_loaded 2 3 4 5 6 7] demo_loaded [of "Fin 50"] 2 3 4 5 6 7
  show ?thesis by (simp add: q) (simp add: exact_def Math_round_def)
qed

text \<open>
  C7. \<open>construct\<close> throws exactly when the container is not a DOM element, or a callback
  was passed that is not a function, or a threshold was passed whose number is below 0
  or above 100. It throws before it stores anything or starts a load, and it has no
  second attempt: the model returns the error and no state.
\<close>

theorem construct_validation:
  "isl (construct h io coerce args) \<longleftrightarrow>
     (\<not> isDomElement h io (arg args 0)
      \<or> (3 < length args \<and> typeof (arg args 3) \<noteq> ''function'')
      \<or> (4 < length args \<and> (js_lt (to_number coerce (arg args 4)) (Fin 0)
                              \<or> js_gt (to_number coerce (arg args 4)) (Fin 100))))"
  by (auto simp add: construct_def Let_def js_times_one js_gt_def)

theorem construct_validation_witness:
  "\<not> isDomElement False (\<lambda>v. False) (arg [JString ''#ticket''] 0)
   \<and> isl (construct False (\<lambda>v. False) (\<lambda>v. NaN) [JString ''#ticket''])
   \<and> typeof (arg [containerEl, JString ''o.jpg'', JString ''b.png'', JNumber (Fin 50)] 3) \<noteq> ''function''
   \<and> isl (construct False (\<lambda>v. False) (\<lambda>v. NaN)
            [containerEl, JString ''o.jpg'', JString ''b.png'', JNumber (Fin 50)])
   \<and> js_gt (to_number (\<lambda>v. NaN) (arg (ticketArgs (JNumber (Fin 101))) 4)) (Fin 100)
   \<and> isl (construct False (\<lambda>v. False) (\<lambda>v. NaN) (ticketArgs (JNumber (Fin 101))))
   \<and> js_lt (to_number (\<lambda>v. NaN) (arg (ticketArgs (JNumber (Fin (- 1)))) 4)) (Fin 0)
   \<and> isl (construct False (\<lambda>v. False) (\<lambda>v. NaN) (ticketArgs (JNumber (Fin (- 1)))))
   \<and> \<not> isl (construct False (\<lambda>v. False) (\<lambda>v. NaN) (ticketArgs (JNumber (Fin 50))))"
  using construct_validation [of False "\<lambda>v. False" "\<lambda>v. NaN" "[JString ''#ticket'']"]
    construct_validation [of False "\<lambda>v. False" "\<lambda>v. NaN"
      "[containerEl, JString ''o.jpg'', JString ''b.png'', JNumber (Fin 50)]"]
    construct_validation [of False "\<lambda>v. False" "\<lambda>v. NaN" "ticketArgs (JNumber (Fin 101))"]
    construct_validation [of False "\<lambda>v. False" "\<lambda>v. NaN" "ticketArgs (JNumber (Fin (- 1)))"]
    construct_validation [of False "\<lambda>v. False" "\<lambda>v. NaN" "ticketArgs (JNumber (Fin 50))"]
  by (simp add: ticketArgs_def arg_def isDomElement_def containerEl_def js_gt_def)

text \<open>
  C8, as the code has it. The reveal scan of a pointer-up runs inside the handler, on the
  overlay as it is then: it neither waits for a drain nor drains. Whether the callback is
  invoked is decided by the erased fraction of the undrained overlay, and the state the
  callback is invoked in, or the handler ends in when it is not invoked, has the queue
  and the overlay of before the pointer-up. Only \<open>draw\<close> empties the queue.
\<close>

theorem pointer_up_scan:
  assumes "isPointerDown s" and "\<not> isRevealed s" and "wf_canvas (overlayCanvas s)"
  shows "onPointerUp rnd call s =
           (if js_ge (erasedFraction rnd (overlayCanvas s)) (revealThreshold s)
            then (case call (released s) of
                    None \<Rightarrow> None
                  | Some (s', Returns) \<Rightarrow> Some (s'\<lparr>isRevealed := True\<rparr>)
                  | Some (s', Throws) \<Rightarrow> Some s')
            else Some (released s))
         \<and> paintQueue (released s) = paintQueue s
         \<and> overlayCanvas (released s) = overlayCanvas s
         \<and> paintQueue (draw rnd dI s) = []"
proof -
  have w: "wf_canvas (overlayCanvas (released s))" and n: "\<not> isRevealed (released s)"
    using assms(2,3) by (simp_all add: released_def)
  from assms(1) have "onPointerUp rnd call s = testRevealed rnd call (released s)"
    by (simp add: onPointerUp_def released_def)
  with testRevealed_unfold [OF w n, of rnd call] show ?thesis
    by (simp add: released_def draw_def)
qed

theorem pointer_up_scan_witness:
  "isPointerDown (pressed (Fin 100)) \<and> \<not> isRevealed (pressed (Fin 100))
   \<and> wf_canvas (overlayCanvas (pressed (Fin 100)))
   \<and> \<not> js_ge (erasedFraction exact (overlayCanvas (pressed (Fin 100)))) (Fin 100)
   \<and> onPointerUp exact (revealCallbackCall exact quiet 1) (pressed (Fin 100)) =
       Some ((demo (Fin 100))\<lparr>paintQueue := [\<lparr>px = 0, py = 0\<rparr>]\<rparr>)
   \<and> paintQueue (draw exact stampOpaque (pressed (Fin 100))) = []"
proof -
  have 1: "isPointerDown (pressed (Fin 100))" and 2: "\<not> isRevealed (pressed (Fin 100))"
    and 3: "wf_canvas (overlayCanvas (pressed (Fin 100)))"
    and t: "revealThreshold (pressed (Fin 100)) = Fin 100"
    and o: "overlayCanvas (pressed (Fin 100)) = opaquePixel"
    by (simp_all add: pressed_def demo_def wf_canvas_def opaquePixel_def)
  have f: "\<not> js_ge (erasedFraction exact opaquePixel) (Fin 100)"
    by (simp add: fraction_100 visibleCount_def opaquePixel_def)
  from pointer_up_scan [OF 1 2 3, of exact "revealCallbackCall exact quiet 1" stampOpaque]
    1 2 3 f
  show ?thesis by (simp add: t o released_pressed)
qed

text \<open>
  C8 as stated has the scan never read the overlay while points are queued. A press and
  a release with no frame in between: the scan runs with the pressed point still in the
  queue, leaves it there and does not fire at threshold 100, though the point erases the
  whole one-pixel overlay; after a drain the same scan fires.
\<close>

theorem scan_before_drain_counterexample:
  "run exact stampOpaque (revealCallbackCall exact quiet 1) [PointerDown tap] (demo (Fin 100))
     = Some (pressed (Fin 100))
   \<and> paintQueue (pressed (Fin 100)) = [\<lparr>px = 0, py = 0\<rparr>]
   \<and> onPointerUp exact (revealCallbackCall exact quiet 1) (pressed (Fin 100)) =
       Some ((demo (Fin 100))\<lparr>paintQueue := [\<lparr>px = 0, py = 0\<rparr>]\<rparr>)
   \<and> map_option calls
       (onPointerUp exact (revealCallbackCall exact quiet 1)
          (draw exact stampOpaque (pressed (Fin 100)))) = Some [[]]"
proof -
  have 1: "run exact stampOpaque (revealCallbackCall exact quiet 1) [PointerDown tap]
             (demo (Fin 100)) = Some (pressed (Fin 100))"
    by (simp add: pressed_reached)
  have 2: "paintQueue (pressed (Fin 100)) = [\<lparr>px = 0, py = 0\<rparr>]"
    by (simp add: pressed_def)
  have 3: "onPointerUp exact (revealCallbackCall exact quiet 1) (pressed (Fin 100)) =
       Some ((demo (Fin 100))\<lparr>paintQueue := [\<lparr>px = 0, py = 0\<rparr>]\<rparr>)"
    by (simp add: eval_defs pressed_def)
  have 4: "map_option calls
       (onPointerUp exact (revealCallbackCall exact quiet 1)
          (draw exact stampOpaque (pressed (Fin 100)))) = Some [[]]"
    by (simp add: eval_defs pressed_def brush10_size stamp_tap)
  from 1 2 3 4 show ?thesis by (intro conjI)
qed

text \<open>
  C9. When the fifth argument coerces to \<open>NaN\<close> (and the container and the callback are
  valid), \<open>construct\<close> does not throw and stores \<open>NaN\<close> as the threshold; the widget that
  the two loads then start keeps that threshold, its reveal check changes nothing, and
  after any inputs the callback has not been called and the flag is still false,
  whatever the rounding and whatever the callback would do.
\<close>

theorem nan_threshold:
  assumes "isDomElement h io (arg args 0)" and "typeof (arg args 3) = ''function''"
    and "4 < length args" and "to_number coerce (arg args 4) = NaN"
    and "onCanvasLoaded rnd sc (brushArrived bc (overlayArrived oc
           (projr (construct h io coerce args)))) = Some s"
    and "run rnd dI call es s = Some s'"
  shows "\<not> isl (construct h io coerce args)
         \<and> loadThreshold (projr (construct h io coerce args)) = NaN
         \<and> revealThreshold s' = NaN \<and> testRevealed rnd call s' = Some s'
         \<and> calls s' = [] \<and> \<not> isRevealed s'"
proof -
  from assms(1-4) have c: "construct h io coerce args =
      Inr \<lparr>parentEl = arg args 0, loadCallback = arg args 3, loadThreshold = NaN,
           overlayLoaded = False, brushLoaded = False, loadedOverlay = None, loadedBrush = None\<rparr>"
    by (simp add: construct_def Let_def js_gt_def)
  from onCanvasLoaded_fresh [OF assms(5)] c
  have t: "revealThreshold s = NaN" and f: "calls s = []" "\<not> isRevealed s"
    by (simp_all add: brushArrived_def overlayArrived_def)
  from run_nan [OF t assms(6)] f
  have t': "revealThreshold s' = NaN" and f': "calls s' = []" "\<not> isRevealed s'" by simp_all
  from t' have "testRevealed rnd call s' = Some s'" by (rule testRevealed_nan)
  with c t' f' show ?thesis by simp
qed

theorem nan_threshold_witness:
  "isDomElement False (\<lambda>v. False) (arg (ticketArgs (JString ''half'')) 0)
   \<and> typeof (arg (ticketArgs (JString ''half'')) 3) = ''function''
   \<and> 4 < length (ticketArgs (JString ''half''))
   \<and> to_number (\<lambda>v. NaN) (arg (ticketArgs (JString ''half'')) 4) = NaN
   \<and> onCanvasLoaded exact 1 (brushArrived (Some brush10) (overlayArrived (Some clearPixel)
         (projr (construct False (\<lambda>v. False) (\<lambda>v. NaN) (ticketArgs (JString ''half''))))))
       = Some ((demo NaN)\<lparr>overlayCanvas := clearPixel\<rparr>)
   \<and> run exact stampOpaque (revealCallbackCall exact quiet 1) [PointerDown tap, PointerUp]
        ((demo NaN)\<lparr>overlayCanvas := clearPixel\<rparr>)
       = Some ((demo NaN)\<lparr>overlayCanvas := clearPixel, paintQueue := [\<lparr>px = 0, py = 0\<rparr>]\<rparr>)
   \<and> \<not> isl (construct False (\<lambda>v. False) (\<lambda>v. NaN) (ticketArgs (JString ''half'')))
   \<and> calls ((demo NaN)\<lparr>overlayCanvas := clearPixel, paintQueue := [\<lparr>px = 0, py = 0\<rparr>]\<rparr>) = []"
proof -
  have 1: "isDomElement False (\<lambda>v. False) (arg (ticketArgs (JString ''half'')) 0)"
    by (simp add: ticketArgs_def arg_def containerEl_ok)
  have 2: "typeof (arg (ticketArgs (JString ''half'')) 3) = ''function''"
    by (simp add: ticketArgs_def arg_def)
  have 3: "4 < length (ticketArgs (JString ''half''))"
    by (simp add: ticketArgs_def)
  have 4: "to_number (\<lambda>v. NaN) (arg (ticketArgs (JString ''half'')) 4) = NaN"
    by (simp add: ticketArgs_def arg_def)
  have 5: "onCanvasLoaded exact 1 (brushArrived (Some brush10) (overlayArrived (Some clearPixel)
         (projr (construct False (\<lambda>v. False) (\<lambda>v. NaN) (ticketArgs (JString ''half''))))))
       = Some ((demo NaN)\<lparr>overlayCanvas := clearPixel\<rparr>)"
    by (simp add: construct_def containerEl_ok ticketArgs_def arg_def js_gt_def
          onCanvasLoaded_def overlayArrived_def brushArrived_def demo_def brush10_size exact_def)
  have 6: "run exact stampOpaque (revealCallbackCall exact quiet 1) [PointerDown tap, PointerUp]
        ((demo NaN)\<lparr>overlayCanvas := clearPixel\<rparr>)
       = Some ((demo NaN)\<lparr>overlayCanvas := clearPixel, paintQueue := [\<lparr>px = 0, py = 0\<rparr>]\<rparr>)"
    by (simp add: eval_defs)
  from nan_threshold [OF 1 2 3 4 5 6] 1 2 3 4 5 6 show ?thesis by simp
qed

text \<open>
  C10. A pointer-move while no pointer is down returns the state as it was: queue,
  \<open>lastPoint\<close>, the two origins and both canvases are untouched and nothing is enqueued.
\<close>

theorem onPointerMove_idle: "\<not> isPointerDown s \<Longrightarrow> onPointerMove rnd ev s = Some s"
  by (simp add: onPointerMove_def)

theorem onPointerMove_idle_witness:
  "\<not> isPointerDown (demo (Fin 50))
   \<and> onPointerMove exact tap (demo (Fin 50)) = Some (demo (Fin 50))"
  using onPointerMove_idle [of "demo (Fin 50)" exact tap] by (simp add: demo_def)

end
